theory Spec2Isabelle
  imports Main "HOL-Library.Sublist"
begin

section \<open>Pigeon Optics: datasets, attachments and codecs\<close>

text \<open>
  A shallow embedding of the storage core of the repository: the base data model of
  datasets and lenses (\<open>readMeta\<close>, \<open>updateMeta\<close>, \<open>writeEntries\<close>, \<open>delete\<close>), the
  attachment store (\<open>link\<close>, \<open>hold\<close>, \<open>validate\<close>), the codec registry (\<open>for\<close>), the
  request-body decoding of the two versions of \<open>server.js\<close>, and the XML codec.

  Asynchronous functions are modelled as functions on an explicit state; a thrown
  exception is the \<open>Inl\<close> of a sum. The in-process locks (\<open>tq.lockWhile\<close>) serialise
  calls and have no effect on a single call, so they do not appear.
\<close>

subsection \<open>Errors\<close>

datatype error =
    DatasetDoesntExist
  | CannotLinkNonExistant
  | MissingAttachments "string list"
  | AssertionError string
  | TypeError string
  | ValidationError string
  | BlockError string
  | PlainError string
  | OutsideModel string

subsection \<open>The file store\<close>


definition fs_update ::
  "'v option \<Rightarrow> ('v option \<Rightarrow> 's \<Rightarrow> (error + 'v option) \<times> 's) \<Rightarrow> 's
    \<Rightarrow> (error + unit) \<times> 'v option \<times> 's" where
  "fs_update cur fn st =
     (case fn cur st of
        (Inl e, st') \<Rightarrow> (Inl e, cur, st')
      | (Inr None, st') \<Rightarrow> (Inr (), cur, st')
      | (Inr (Some v), st') \<Rightarrow> (Inr (), Some v, st'))"

subsection \<open>Strings\<close>

text \<open>
  \<open>String.prototype.toLowerCase\<close> on the ASCII range (hashes, hash URLs and media types
  are ASCII), \<open>startsWith\<close> is \<^const>\<open>prefix\<close>, \<open>endsWith\<close> is \<^const>\<open>suffix\<close>.
\<close>

definition lower_char :: "char \<Rightarrow> char" where
  "lower_char c =
     (let n = (of_char c :: int) in if 65 \<le> n \<and> n \<le> 90 then char_of (n + 32) else c)"

definition toLowerCase :: "string \<Rightarrow> string" where
  "toLowerCase s = map lower_char s"

subsection \<open>The attachment store\<close>

text \<open>
  \<open>blobStore\<close> and \<open>metaStore\<close> are keyed by the hex hash; \<open>holding\<close> is the in-memory
  table of hold counts. The meta of an attachment has \<open>created\<close>, \<open>updated\<close>,
  \<open>linkers\<close> and whatever else the uploader passed (\<open>a_other\<close>). The functions take the
  hash as the hex string the source computes first (\<open>hash.toString('hex')\<close>).
\<close>

record 'm attachmentMeta =
  a_created :: int
  a_updated :: int
  linkers :: "string list"
  a_other :: 'm

record 'm attachments =
  blobStore :: "string set"
  metaStore :: "string \<rightharpoonup> 'm attachmentMeta"
  holding :: "string \<rightharpoonup> nat"

definition has :: "'m attachments \<Rightarrow> string \<Rightarrow> bool" where
  "has s hexHash = (hexHash \<in> blobStore s \<and> metaStore s hexHash \<noteq> None)"

text \<open>
  \<open>link(hash, ...dataPaths)\<close>: the callback of \<open>metaStore.update\<close> throws when there is
  no meta, returns the meta with the missing paths pushed and \<open>updated\<close> set to
  \<open>Date.now()\<close> when a path is missing, and returns undefined otherwise.
\<close>

definition link_callback ::
  "int \<Rightarrow> string list \<Rightarrow> 'm attachmentMeta option \<Rightarrow> unit
    \<Rightarrow> (error + 'm attachmentMeta option) \<times> unit" where
  "link_callback now dataPaths meta u =
     (case meta of
        None \<Rightarrow> (Inl CannotLinkNonExistant, u)
      | Some m \<Rightarrow>
          (let missing = filter (\<lambda>x. x \<notin> set (linkers m)) dataPaths
           in if length missing > 0
              then (Inr (Some (m\<lparr>linkers := linkers m @ missing, a_updated := now\<rparr>)), u)
              else (Inr None, u)))"

definition link ::
  "int \<Rightarrow> string \<Rightarrow> string list \<Rightarrow> 'm attachments \<Rightarrow> (error + unit) \<times> 'm attachments" where
  "link now hexHash dataPaths s =
     (case fs_update (metaStore s hexHash) (link_callback now dataPaths) () of
        (r, v, _) \<Rightarrow> (r, s\<lparr>metaStore := (metaStore s)(hexHash := v)\<rparr>))"

text \<open>\<open>hold(hash)\<close> counts one more hold on the hash.\<close>

definition hold :: "string \<Rightarrow> 'm attachments \<Rightarrow> 'm attachments" where
  "hold hexHash s =
     s\<lparr>holding := (holding s)(hexHash \<mapsto>
          (case holding s hexHash of None \<Rightarrow> 1 | Some n \<Rightarrow> n + 1))\<rparr>"

text \<open>
  \<open>validate(hash)\<close>. \<open>readPath.meta\<close> (not among the sources) is a parameter: for the
  linker paths of the meta it yields \<open>{ path, links }\<close>, with \<open>links\<close> absent when the
  path does not resolve. The loop pushes \<open>path\<close> once for every link of the record that
  starts with the hash URL of this attachment.
\<close>

definition pruneLinkers :: "string \<Rightarrow> (string \<times> string list option) list \<Rightarrow> string list" where
  "pruneLinkers hashURL results =
     concat (map (\<lambda>(path, links).
        case links of
          None \<Rightarrow> []
        | Some ls \<Rightarrow> map (\<lambda>_. path) (filter (\<lambda>l. prefix hashURL (toLowerCase l)) ls)) results)"

definition validate_callback ::
  "(string list \<Rightarrow> (string \<times> string list option) list) \<Rightarrow> string
    \<Rightarrow> 'm attachmentMeta option \<Rightarrow> bool \<Rightarrow> (error + 'm attachmentMeta option) \<times> bool" where
  "validate_callback readPath_meta hexHash meta retain =
     (case meta of
        None \<Rightarrow> (Inr None, retain)
      | Some m \<Rightarrow>
          (let newLinkers =
                 pruneLinkers (''hash://sha256/'' @ toLowerCase hexHash) (readPath_meta (linkers m))
           in (Inr (Some (m\<lparr>linkers := newLinkers\<rparr>)),
               if length newLinkers > 0 then True else retain)))"

definition validate ::
  "(string list \<Rightarrow> (string \<times> string list option) list) \<Rightarrow> string \<Rightarrow> 'm attachments
    \<Rightarrow> bool \<times> 'm attachments" where
  "validate readPath_meta hexHash s =
     (case fs_update (metaStore s hexHash) (validate_callback readPath_meta hexHash) False of
        (_, v, retain) \<Rightarrow>
          (let s1 = s\<lparr>metaStore := (metaStore s)(hexHash := v)\<rparr>
           in if \<not> retain \<and> hexHash \<notin> dom (holding s1)
              then (retain, s1\<lparr>blobStore := blobStore s1 - {hexHash},
                                metaStore := (metaStore s1)(hexHash := None)\<rparr>)
              else (retain, s1)))"

subsection \<open>JavaScript objects as property lists\<close>

text \<open>
  An object with string keys is the list of its own properties in the order in which
  \<open>Object.keys\<close>, \<open>Object.values\<close>, \<open>Object.entries\<close> and \<open>for ... in\<close> enumerate
  them (ECMAScript, OrdinaryOwnPropertyKeys): the keys that are array indices, the
  canonical decimal numerals below \<open>2^32 - 1\<close>, come first in ascending numeric order,
  then the other keys in the order in which they were created. Assigning to an existing
  key keeps its place.
\<close>

type_synonym 'v jsobj = "(string \<times> 'v) list"

definition isDigit :: "char \<Rightarrow> bool" where
  "isDigit c = (let n = (of_char c :: int) in 48 \<le> n \<and> n \<le> 57)"

definition decimal :: "string \<Rightarrow> int" where
  "decimal s = foldl (\<lambda>a c. 10 * a + ((of_char c :: int) - 48)) 0 s"

definition isArrayIndex :: "string \<Rightarrow> bool" where
  "isArrayIndex k =
     (k \<noteq> [] \<and> list_all isDigit k \<and> (k = ''0'' \<or> hd k \<noteq> CHR ''0'') \<and> decimal k < 4294967295)"

fun insertIndex :: "string \<Rightarrow> 'v \<Rightarrow> 'v jsobj \<Rightarrow> 'v jsobj" where
  "insertIndex k v [] = [(k, v)]"
| "insertIndex k v ((k', v') # ps) =
     (if isArrayIndex k' \<and> decimal k' < decimal k then (k', v') # insertIndex k v ps
      else (k, v) # (k', v') # ps)"

definition obj_get :: "'v jsobj \<Rightarrow> string \<Rightarrow> 'v option" where
  "obj_get ob k = map_of ob k"

definition obj_set :: "'v jsobj \<Rightarrow> string \<Rightarrow> 'v \<Rightarrow> 'v jsobj" where
  "obj_set ob k v =
     (if k \<in> set (map fst ob) then map (\<lambda>(k', v'). if k' = k then (k', v) else (k', v')) ob
      else if isArrayIndex k then insertIndex k v ob
      else ob @ [(k, v)])"

definition obj_delete :: "'v jsobj \<Rightarrow> string \<Rightarrow> 'v jsobj" where
  "obj_delete ob k = filter (\<lambda>(k', v'). k' \<noteq> k) ob"

definition fromEntries :: "(string \<times> 'v) list \<Rightarrow> 'v jsobj" where
  "fromEntries es = foldl (\<lambda>ob (k, v). obj_set ob k v) [] es"

text \<open>
  The names every plain object inherits from \<open>Object.prototype\<close>: reading such a key
  from an object that has no own property of the name gives the inherited member, not
  undefined.
\<close>

definition objectPrototypeKeys :: "string list" where
  "objectPrototypeKeys =
     [''constructor'', ''__defineGetter__'', ''__defineSetter__'', ''hasOwnProperty'',
      ''__lookupGetter__'', ''__lookupSetter__'', ''isPrototypeOf'', ''propertyIsEnumerable'',
      ''toString'', ''valueOf'', ''__proto__'', ''toLocaleString'']"

text \<open>
  \<open>Array.prototype.sort(compare)\<close> is stable; with a consistent comparison its result
  is the one of a stable insertion sort.
\<close>

fun insort_cmp :: "('a \<Rightarrow> 'a \<Rightarrow> int) \<Rightarrow> 'a \<Rightarrow> 'a list \<Rightarrow> 'a list" where
  "insort_cmp cmp x [] = [x]"
| "insort_cmp cmp x (y # ys) = (if cmp x y \<le> 0 then x # y # ys else y # insort_cmp cmp x ys)"

definition js_sort :: "('a \<Rightarrow> 'a \<Rightarrow> int) \<Rightarrow> 'a list \<Rightarrow> 'a list" where
  "js_sort cmp xs = foldr (insort_cmp cmp) xs []"

text \<open>
  Modelled from the spec: the comparison of the package \<open>string-natural-compare\<close> is not
  among the sources; the specification calls it the natural string comparison of record
  ids. Runs of digits compare by their numeric value (leading zeros skipped, the longer
  numeral is the larger, numerals of one length compare digit by digit), every other
  character by its code, and a proper prefix comes first.
\<close>

fun digitsCompare :: "string \<Rightarrow> string \<Rightarrow> int" where
  "digitsCompare (a # as) (b # bs) =
     (if a \<noteq> b then int (of_char a) - int (of_char b) else digitsCompare as bs)"
| "digitsCompare _ _ = 0"

function stringNaturalCompare :: "string \<Rightarrow> string \<Rightarrow> int" where
  "stringNaturalCompare [] [] = 0"
| "stringNaturalCompare [] (b # bs) = - 1"
| "stringNaturalCompare (a # as) [] = 1"
| "stringNaturalCompare (a # as) (b # bs) =
     (if isDigit a then
        (if \<not> isDigit b then int (of_char a) - int (of_char b)
         else
           (let sa = dropWhile (\<lambda>c. c = CHR ''0'') (a # as);
                sb = dropWhile (\<lambda>c. c = CHR ''0'') (b # bs);
                na = takeWhile isDigit sa;
                nb = takeWhile isDigit sb
            in if length na \<noteq> length nb then int (length na) - int (length nb)
               else if digitsCompare na nb \<noteq> 0 then digitsCompare na nb
               else stringNaturalCompare (dropWhile isDigit (a # as)) (dropWhile isDigit (b # bs))))
      else if a \<noteq> b then int (of_char a) - int (of_char b)
      else stringNaturalCompare as bs)"
  by pat_completeness auto
termination
proof (relation "measure (\<lambda>(x, y). length x)")
  show "wf (measure (\<lambda>(x, y). length x))"
    by simp
next
  fix a :: char and as :: string and b :: char and bs :: string
  assume "isDigit a"
  then have "length (dropWhile isDigit (a # as)) \<le> length as"
    by (simp add: length_dropWhile_le)
  then show "((dropWhile isDigit (a # as), dropWhile isDigit (b # bs)), a # as, b # bs)
               \<in> measure (\<lambda>(x, y). length x)"
    by simp
next
  fix a :: char and as :: string and b :: char and bs :: string
  show "((as, bs), a # as, b # bs) \<in> measure (\<lambda>(x, y). length x)"
    by simp
qed

subsection \<open>Datasets: the base data model\<close>

text \<open>
  A record of the meta holds the hash of its value (a Buffer, here its bytes as
  characters), the hash URLs the value links to, and the version at which it was
  written; \<open>writeEntries\<close> creates it without a version and \<open>updateMeta\<close> fills the
  version in. The meta of a dataset holds \<open>version\<close>, \<open>created\<close>, \<open>updated\<close>, the
  owner's settings (\<open>memo\<close> and the like) and \<open>records\<close>. Versions are JavaScript
  numbers; they are integers here, exact below \<open>2^53\<close>.
\<close>

record recordMeta =
  hash :: string
  links :: "string list"
  rversion :: "int option"

record 'c datasetMeta =
  version :: int
  created :: int
  updated :: int
  settings :: 'c
  records :: "recordMeta jsobj"

text \<open>
  A hash URL found in a value: the hex hash it names and its text (\<open>toString()\<close>).
\<close>

record hashURL =
  hu_hash :: string
  hu_text :: string

text \<open>
  What the base data model takes from outside: \<open>listHashURLs\<close> of
  \<open>utility/record-structure\<close>, the content hash the object store computes for a value,
  \<open>attachments.has\<close> at the time of the call, the validation rules of the source
  (the dataset model or the lens model), and the clock.
\<close>

record ('d, 'c) model =
  listHashURLs :: "'d \<Rightarrow> hashURL list"
  objectHash :: "'d \<Rightarrow> string"
  attachments_has :: "string \<Rightarrow> bool"
  validateRecord :: "string \<Rightarrow> 'd \<Rightarrow> error option"
  validateConfig :: "'c datasetMeta \<Rightarrow> error option"
  date_now :: int

text \<open>
  The state of one dataset: the file \<open>meta\<close> of its file store, the hashes stored in
  its object store, and the object store's in-memory hold table.
\<close>

record 'c dataset =
  meta_file :: "'c datasetMeta option"
  objects :: "string list"
  obj_holds :: "string list"

text \<open>
  Modelled from the spec: the object store (\<open>library/models/file/blob\<close>) is not among
  the sources. Section 4.3: \<open>write\<close> stores the value under its hash and is idempotent;
  \<open>retain(set)\<close> deletes every stored hash that is neither in the set nor in the
  in-memory hold table.
\<close>

definition objectStore_write :: "string \<Rightarrow> string list \<Rightarrow> string list" where
  "objectStore_write h objs = List.insert h objs"

definition retain :: "string list \<Rightarrow> string list \<Rightarrow> string list \<Rightarrow> string list" where
  "retain holds keep objs = filter (\<lambda>h. h \<in> set keep \<or> h \<in> set holds) objs"


text \<open>
  The loop of \<open>updateMeta\<close> over \<open>Object.values(result.records)\<close>: a record without a
  version gets \<open>config.version\<close>; the version must be above 0 and the hash 32 bytes
  long; each hash that passes is pushed to \<open>retainObjectList\<close>. The result is the
  records with their versions, or the assertion that failed, and the hashes pushed.
  The assertions on the JavaScript type of a member hold by the types of the model.
\<close>

fun checkRecords ::
  "int \<Rightarrow> recordMeta jsobj \<Rightarrow> (error + recordMeta jsobj) \<times> string list" where
  "checkRecords v [] = (Inr [], [])"
| "checkRecords v ((k, m) # rest) =
     (let ver = (case rversion m of None \<Rightarrow> v | Some x \<Rightarrow> x)
      in if \<not> ver > 0
         then (Inl (AssertionError ''record object must contain version number above 0''), [])
         else if length (hash m) \<noteq> 32
         then (Inl (AssertionError ''record object's hash property must be 32 bytes long''), [])
         else (case checkRecords v rest of
                 (Inl e, pushed) \<Rightarrow> (Inl e, hash m # pushed)
               | (Inr rs, pushed) \<Rightarrow> (Inr ((k, m\<lparr>rversion := Some ver\<rparr>) # rs), hash m # pushed)))"

text \<open>
  \<open>updateMeta(user, name, block)\<close>. The block is called with the draft (the stored meta
  with \<open>version + 1\<close> and \<open>updated = Date.now()\<close>); it may write to the object store and
  may throw; when it returns, it gives the draft as it has left it and its result (the
  blocks of this module return the draft itself). The \<open>finally\<close> clause runs
  \<open>retain\<close> on every path through the \<open>try\<close>.
\<close>

type_synonym 'c block =
  "'c datasetMeta \<Rightarrow> string list \<Rightarrow> (error + 'c datasetMeta \<times> 'c datasetMeta) \<times> string list"

definition updateMeta_callback ::
  "('d, 'c) model \<Rightarrow> string list \<Rightarrow> 'c block \<Rightarrow> 'c datasetMeta option \<Rightarrow> string list
    \<Rightarrow> (error + 'c datasetMeta option) \<times> string list" where
  "updateMeta_callback M holds block stored objs =
     (case stored of
        None \<Rightarrow> (Inl DatasetDoesntExist, objs)
      | Some config0 \<Rightarrow>
          (let config = config0\<lparr>version := version config0 + 1, updated := date_now M\<rparr>;
               retainObjectList = map (\<lambda>(k, r). hash r) (records config)
           in case block config objs of
                (Inl e, objs1) \<Rightarrow> (Inl e, retain holds retainObjectList objs1)
              | (Inr (config', result), objs1) \<Rightarrow>
                  (case checkRecords (version config') (records result) of
                     (Inl e, pushed) \<Rightarrow> (Inl e, retain holds (retainObjectList @ pushed) objs1)
                   | (Inr recs, pushed) \<Rightarrow>
                       (let result' = result\<lparr>records := fromEntries
                              (js_sort (\<lambda>a b. stringNaturalCompare (fst a) (fst b)) recs)\<rparr>
                        in case validateConfig M result' of
                             Some e \<Rightarrow> (Inl e, retain holds (retainObjectList @ pushed) objs1)
                           | None \<Rightarrow>
                               (Inr (Some result'),
                                retain holds (retainObjectList @ pushed) objs1)))))"

definition updateMeta ::
  "('d, 'c) model \<Rightarrow> 'c block \<Rightarrow> 'c dataset \<Rightarrow> (error + unit) \<times> 'c dataset" where
  "updateMeta M block s =
     (case fs_update (meta_file s) (updateMeta_callback M (obj_holds s) block) (objects s) of
        (r, v, objs) \<Rightarrow> (r, s\<lparr>meta_file := v, objects := objs\<rparr>))"

text \<open>
  The loop of \<open>writeEntries\<close> over the entries, \<open>writeStep\<close> being its body for one
  entry; a value of \<open>None\<close> is null or undefined. Its state is \<open>meta.records\<close>, the set \<open>includedRecords\<close> and the object store. Reading
  \<open>meta.records[id]\<close> for an id that is no own key but a member of \<open>Object.prototype\<close>
  gives that member, whose \<open>hash\<close> is undefined, and \<open>.equals\<close> on it throws.
\<close>

definition writeStep ::
  "('d, 'c) model \<Rightarrow> string \<times> 'd option \<Rightarrow> recordMeta jsobj \<Rightarrow> string list \<Rightarrow> string list
    \<Rightarrow> (error + recordMeta jsobj \<times> string list) \<times> string list" where
  "writeStep M entry recs inc objs =
     (case entry of
        (rid, None) \<Rightarrow> (Inr (obj_delete recs rid, inc), objs)
      | (rid, Some d) \<Rightarrow>
          (let lnks = listHashURLs M d;
               missingLinks = map hu_text (filter (\<lambda>l. \<not> attachments_has M (hu_hash l)) lnks)
           in if length missingLinks > 0 then (Inl (MissingAttachments missingLinks), objs)
              else (case validateRecord M rid d of
                      Some e \<Rightarrow> (Inl e, objs)
                    | None \<Rightarrow>
                        (let h = objectHash M d;
                             objs' = objectStore_write h objs;
                             fresh = \<lparr>hash = h, links = map hu_text lnks, rversion = None\<rparr>
                         in case obj_get recs rid of
                              None \<Rightarrow>
                                if rid \<in> set objectPrototypeKeys
                                then (Inl (TypeError
                                       ''Cannot read properties of undefined (reading 'equals')''), objs')
                                else (Inr (obj_set recs rid fresh, rid # inc), objs')
                            | Some r \<Rightarrow>
                                if hash r \<noteq> h then (Inr (obj_set recs rid fresh, rid # inc), objs')
                                else (Inr (recs, rid # inc), objs')))))"

fun writeLoop ::
  "('d, 'c) model \<Rightarrow> (string \<times> 'd option) list \<Rightarrow> recordMeta jsobj \<Rightarrow> string list \<Rightarrow> string list
    \<Rightarrow> (error + recordMeta jsobj \<times> string list) \<times> string list" where
  "writeLoop M [] recs inc objs = (Inr (recs, inc), objs)"
| "writeLoop M (entry # es) recs inc objs =
     (case writeStep M entry recs inc objs of
        (Inl e, objs') \<Rightarrow> (Inl e, objs')
      | (Inr (recs', inc'), objs') \<Rightarrow> writeLoop M es recs' inc' objs')"

definition writeEntries_block ::
  "('d, 'c) model \<Rightarrow> (string \<times> 'd option) list \<Rightarrow> bool \<Rightarrow> 'c block" where
  "writeEntries_block M entries overwrite meta objs =
     (let prevRecords = map fst (records meta)
      in case writeLoop M entries (records meta) [] objs of
           (Inl e, objs') \<Rightarrow> (Inl e, objs')
         | (Inr (recs, inc), objs') \<Rightarrow>
             (let recs' = (if overwrite
                           then foldl (\<lambda>r rid. if rid \<notin> set inc then obj_delete r rid else r)
                                  recs prevRecords
                           else recs);
                  meta' = meta\<lparr>records := recs'\<rparr>
              in (Inr (meta', meta'), objs')))"

definition writeEntries ::
  "('d, 'c) model \<Rightarrow> (string \<times> 'd option) list \<Rightarrow> bool \<Rightarrow> 'c dataset
    \<Rightarrow> (error + unit) \<times> 'c dataset" where
  "writeEntries M entries overwrite s = updateMeta M (writeEntries_block M entries overwrite) s"

text \<open>
  \<open>write\<close>, \<open>merge\<close>, \<open>overwrite\<close> and \<open>delete\<close>. \<open>Object.entries(records)\<close> is the
  property list of the object passed. \<open>delete\<close> without a record id removes the whole
  subtree of the dataset.
\<close>

definition write_record ::
  "('d, 'c) model \<Rightarrow> string \<Rightarrow> 'd option \<Rightarrow> 'c dataset \<Rightarrow> (error + unit) \<times> 'c dataset" where
  "write_record M recordID data s =
     (case data of
        None \<Rightarrow> (Inl (AssertionError ''Records cannot be set to undefined''), s)
      | Some d \<Rightarrow> writeEntries M [(recordID, Some d)] False s)"

definition merge ::
  "('d, 'c) model \<Rightarrow> ('d option) jsobj \<Rightarrow> 'c dataset \<Rightarrow> (error + unit) \<times> 'c dataset" where
  "merge M recs s = writeEntries M recs False s"

definition overwrite ::
  "('d, 'c) model \<Rightarrow> ('d option) jsobj \<Rightarrow> 'c dataset \<Rightarrow> (error + unit) \<times> 'c dataset" where
  "overwrite M recs s = writeEntries M recs True s"

definition delete_block :: "string \<Rightarrow> 'c block" where
  "delete_block recordID meta objs =
     (let meta' = meta\<lparr>records := obj_delete (records meta) recordID\<rparr>
      in (Inr (meta', meta'), objs))"

definition delete ::
  "('d, 'c) model \<Rightarrow> string option \<Rightarrow> 'c dataset \<Rightarrow> (error + unit) \<times> 'c dataset" where
  "delete M recordID s =
     (case recordID of
        Some rid \<Rightarrow>
          if \<not> length rid > 0
          then (Inl (AssertionError ''recordID can't be an empty string''), s)
          else updateMeta M (delete_block rid) s
      | None \<Rightarrow> (Inr (), s\<lparr>meta_file := None, objects := []\<rparr>))"

text \<open>
  \<open>create(user, name, config)\<close>: version 0, both timestamps now, no records; the name
  must be free and the configuration valid.
\<close>

definition create ::
  "('d, 'c) model \<Rightarrow> 'c \<Rightarrow> 'c dataset \<Rightarrow> (error + unit) \<times> 'c dataset" where
  "create M cfg s =
     (let config = \<lparr>version = 0, created = date_now M, updated = date_now M,
                     settings = cfg, records = []\<rparr>
      in if meta_file s \<noteq> None
         then (Inl (AssertionError ''Name already in use already exists, choose another name''), s)
         else (case validateConfig M config of
                 Some e \<Rightarrow> (Inl e, s)
               | None \<Rightarrow> (Inr (), s\<lparr>meta_file := Some config\<rparr>)))"

subsection \<open>The codec registry\<close>

text \<open>
  Reading a property of a plain object: an own property, else a member inherited from
  \<open>Object.prototype\<close> (which is truthy), else undefined.
\<close>

datatype 'v lookup = Found 'v | Inherited string | Undefined

definition obj_read :: "'v jsobj \<Rightarrow> string \<Rightarrow> 'v lookup" where
  "obj_read ob k =
     (case map_of ob k of
        Some v \<Rightarrow> Found v
      | None \<Rightarrow> if k \<in> set objectPrototypeKeys then Inherited k else Undefined)"

text \<open>
  A codec as far as the registry reads it: its \<open>handles\<close> and \<open>extensions\<close>. The
  registry is built from the exports of \<open>codec/index.js\<close> that have these arrays, in
  the order of the exports; which codecs there are is a parameter, since of the codec
  modules only the XML codec is among the sources.
\<close>

record codec =
  codec_name :: string
  handles :: "string list"
  extensions :: "string list"

definition mediaTypeHandlers :: "codec list \<Rightarrow> codec jsobj" where
  "mediaTypeHandlers exports =
     fromEntries (concat (map (\<lambda>c. map (\<lambda>mediaType. (mediaType, c)) (handles c)) exports))"

definition extensionHandlers :: "codec list \<Rightarrow> codec jsobj" where
  "extensionHandlers exports =
     fromEntries (concat (map (\<lambda>c. map (\<lambda>ext. (toLowerCase ext, c)) (extensions c)) exports))"

text \<open>
  \<open>for(query)\<close>: the test reads the table at the part of the query before the first
  \<open>;\<close>, the result reads it at the whole query; otherwise the first extension, in the
  order of the table, that the query equals or ends with after a dot.
\<close>

definition isUndefined :: "'v lookup \<Rightarrow> bool" where
  "isUndefined l = (case l of Undefined \<Rightarrow> True | _ \<Rightarrow> False)"

definition codec_for :: "codec list \<Rightarrow> string \<Rightarrow> codec lookup" where
  "codec_for exports query0 =
     (let query = toLowerCase query0
      in if \<not> isUndefined (obj_read (mediaTypeHandlers exports)
                 (takeWhile (\<lambda>c. c \<noteq> CHR '';'') query))
         then obj_read (mediaTypeHandlers exports) query
         else (case find (\<lambda>(ext, c). query = ext \<or> suffix (''.'' @ ext) query)
                      (extensionHandlers exports) of
                 Some (ext, c) \<Rightarrow> Found c
               | None \<Rightarrow> Undefined))"

text \<open>The XML codec's tables, as \<open>codec/xml.js\<close> declares them.\<close>

definition xml_codec :: codec where
  "xml_codec =
     \<lparr>codec_name = ''xml'',
      handles = [''application/xml'', ''text/xml'', ''application/rdf+xml'', ''application/rss+xml'',
                 ''application/atom+xml'', ''text/xml'', ''application/xhtml+xml''],
      extensions = [''xml'', ''rss'', ''atom'', ''xhtml'']\<rparr>"

text \<open>
  Modelled from the spec: \<open>codec/json.js\<close> is not among the sources; the specification
  and the servers name \<open>application/json\<close> as the media type of the JSON codec.
\<close>

definition json_codec :: codec where
  "json_codec = \<lparr>codec_name = ''json'', handles = [''application/json''], extensions = [''json'']\<rparr>"

subsection \<open>Decoding request bodies\<close>

text \<open>
  A JavaScript error as far as the servers read it. The decoders of the codecs are
  parameters: they return the decoded body or throw.
\<close>

record jsError =
  e_statusCode :: "nat option"
  e_code :: "string option"
  e_name :: string
  e_message :: string
  e_stack :: string

datatype 'v outcome = Next "'v option" | Respond nat

definition js_includes :: "string \<Rightarrow> string \<Rightarrow> bool" where
  "js_includes s t = list_ex (prefix t) (suffixes s)"

text \<open>
  The earlier \<open>server.js\<close>: the middleware decodes a JSON or CBOR body inside a \<open>try\<close>
  and answers a failure itself, with status 415.
\<close>

record request =
  is_json :: bool
  is_cbor :: bool
  req_is :: "string option"
  body :: string

definition bodyMiddleware0 ::
  "(string \<Rightarrow> jsError + 'v) \<Rightarrow> (string \<Rightarrow> jsError + 'v) \<Rightarrow> request \<Rightarrow> 'v outcome" where
  "bodyMiddleware0 json_decode cbor_decode req =
     (if is_json req
      then (case json_decode (body req) of Inl err \<Rightarrow> Respond 415 | Inr v \<Rightarrow> Next (Some v))
      else if is_cbor req
      then (case cbor_decode (body req) of Inl err \<Rightarrow> Respond 415 | Inr v \<Rightarrow> Next (Some v))
      else Next None)"

text \<open>
  The current \<open>server.js\<close>: the middleware takes the codec for the type \<open>req.is\<close> has
  matched and decodes without a \<open>try\<close>; what is thrown reaches the error handler, which
  chooses the status. Calling \<open>decode\<close> on something that is not a codec is a TypeError.
\<close>

definition errorStatus :: "jsError \<Rightarrow> nat" where
  "errorStatus err =
     (case e_statusCode err of
        Some (Suc n) \<Rightarrow> Suc n
      | _ \<Rightarrow>
          if e_code err = Some ''ENOENT'' then 404
          else if e_name err = ''SyntaxError'' \<or> js_includes (e_stack err) ''/borc/src/decoder.js''
          then 400
          else 500)"

definition decode_of_undefined :: jsError where
  "decode_of_undefined =
     \<lparr>e_statusCode = None, e_code = None, e_name = ''TypeError'',
      e_message = ''Cannot read properties of undefined (reading 'decode')'',
      e_stack = ''TypeError: Cannot read properties of undefined (reading 'decode')''\<rparr>"

definition bodyMiddleware ::
  "codec list \<Rightarrow> (codec \<Rightarrow> string \<Rightarrow> jsError + 'v) \<Rightarrow> request \<Rightarrow> 'v outcome" where
  "bodyMiddleware exports decode req =
     (case req_is req of
        None \<Rightarrow> Next None
      | Some reqType \<Rightarrow>
          (case codec_for exports reqType of
             Found specificCodec \<Rightarrow>
               (case decode specificCodec (body req) of
                  Inl err \<Rightarrow> Respond (errorStatus err)
                | Inr v \<Rightarrow> Next (Some v))
           | _ \<Rightarrow> Respond (errorStatus decode_of_undefined)))"

subsection \<open>The XML codec\<close>

text \<open>
  JavaScript values, the structured values of records and the JsonML documents alike:
  the codec tells the one from the other by inspecting them. Numbers are of a type
  \<open>'n\<close> left open (they are floating-point numbers in the source); a date carries its
  time value. What the platform does with numbers, dates and byte strings is the
  \<open>host\<close>: \<open>Number.prototype.toString\<close>, the truthiness of a number, \<open>parseFloat\<close>,
  \<open>toISOString\<close> of a valid date, \<open>new Date(string)\<close>, \<open>Date.prototype.toString\<close>,
  \<open>buf.toString('base64')\<close>, \<open>Buffer.from(string, encoding)\<close> and \<open>buf.toString()\<close>.
  The parser \<open>onml.parse\<close> belongs to a package outside the repository and is a
  parameter of \<open>decode\<close>.
\<close>

datatype 'n jsval =
    JUndefined
  | JNull
  | JBool bool
  | JNum 'n
  | JStr string
  | JBuffer string
  | JDate 'n
  | JArr "'n jsval list"
  | JObj "(string \<times> 'n jsval) list"

record 'n host =
  numberToString :: "'n \<Rightarrow> string"
  numberTruthy :: "'n \<Rightarrow> bool"
  parseFloat :: "string \<Rightarrow> 'n"
  toISOString :: "'n \<Rightarrow> string"
  newDate :: "string \<Rightarrow> 'n"
  dateToString :: "'n \<Rightarrow> string"
  toBase64 :: "string \<Rightarrow> string"
  bufferFrom :: "string \<Rightarrow> 'n jsval \<Rightarrow> error + string"
  bufferToString :: "string \<Rightarrow> string"

fun sequenceE :: "('e + 'a) list \<Rightarrow> 'e + 'a list" where
  "sequenceE [] = Inr []"
| "sequenceE (Inl e # rest) = Inl e"
| "sequenceE (Inr x # rest) = (case sequenceE rest of Inl e \<Rightarrow> Inl e | Inr xs \<Rightarrow> Inr (x # xs))"

fun joinWith :: "string \<Rightarrow> string list \<Rightarrow> string" where
  "joinWith sep [] = []"
| "joinWith sep [s] = s"
| "joinWith sep (s # t # rest) = s @ sep @ joinWith sep (t # rest)"

fun js_toString :: "'n host \<Rightarrow> 'n jsval \<Rightarrow> string" where
  "js_toString H JUndefined = ''undefined''"
| "js_toString H JNull = ''null''"
| "js_toString H (JBool b) = (if b then ''true'' else ''false'')"
| "js_toString H (JNum n) = numberToString H n"
| "js_toString H (JStr s) = s"
| "js_toString H (JBuffer b) = bufferToString H b"
| "js_toString H (JDate d) = dateToString H d"
| "js_toString H (JArr xs) =
     joinWith '','' (map (\<lambda>x. if x = JUndefined \<or> x = JNull then [] else js_toString H x) xs)"
| "js_toString H (JObj ps) = ''[object Object]''"

definition js_join :: "'n host \<Rightarrow> string \<Rightarrow> 'n jsval list \<Rightarrow> string" where
  "js_join H sep xs =
     joinWith sep (map (\<lambda>x. if x = JUndefined \<or> x = JNull then [] else js_toString H x) xs)"

definition truthy :: "'n host \<Rightarrow> 'n jsval \<Rightarrow> bool" where
  "truthy H v =
     (case v of
        JUndefined \<Rightarrow> False
      | JNull \<Rightarrow> False
      | JBool b \<Rightarrow> b
      | JNum n \<Rightarrow> numberTruthy H n
      | JStr s \<Rightarrow> s \<noteq> []
      | _ \<Rightarrow> True)"


definition isObjectLike :: "'n jsval \<Rightarrow> bool" where
  "isObjectLike v =
     (case v of JBuffer b \<Rightarrow> True | JDate d \<Rightarrow> True | JArr xs \<Rightarrow> True | JObj ps \<Rightarrow> True
      | _ \<Rightarrow> False)"

definition getMember :: "'n jsval \<Rightarrow> string \<Rightarrow> error + 'n jsval" where
  "getMember v k =
     (case v of
        JUndefined \<Rightarrow> Inl (TypeError ''Cannot read properties of undefined'')
      | JNull \<Rightarrow> Inl (TypeError ''Cannot read properties of null'')
      | JObj ps \<Rightarrow> (case map_of ps k of Some x \<Rightarrow> Inr x | None \<Rightarrow> Inr JUndefined)
      | _ \<Rightarrow> Inr JUndefined)"

definition arbitraryNS :: string where
  "arbitraryNS = ''pigeon-optics:arbitrary''"

definition expandElement :: "'n jsval \<Rightarrow> error + 'n jsval" where
  "expandElement element =
     (case element of
        JArr xs \<Rightarrow>
          (case xs of
             JStr tag # more' \<Rightarrow>
               (case more' of
                  [] \<Rightarrow> Inr (JArr [JStr tag, JObj []])
                | e1 # rest \<Rightarrow>
                    (case e1 of
                       JStr s \<Rightarrow> Inr (JArr (JStr tag # JObj [] # more'))
                     | JArr ys \<Rightarrow> Inr (JArr (JStr tag # JObj [] # more'))
                     | _ \<Rightarrow> Inr element))
           | _ \<Rightarrow> Inl (PlainError ''first array item must be string type tag-name''))
      | _ \<Rightarrow> Inl (PlainError ''element must be an array''))"

definition setAttribute :: "'n jsval \<Rightarrow> string \<Rightarrow> 'n jsval \<Rightarrow> error + 'n jsval" where
  "setAttribute enc k v =
     (case enc of
        JArr (t # JObj a # rest) \<Rightarrow> Inr (JArr (t # JObj (obj_set a k v) # rest))
      | JArr (t # JBool b # rest) \<Rightarrow> Inr enc
      | JArr (t # JNum n # rest) \<Rightarrow> Inr enc
      | JArr (t # JStr s # rest) \<Rightarrow> Inr enc
      | JArr (t # JUndefined # rest) \<Rightarrow> Inl (TypeError ''Cannot set properties of undefined'')
      | JArr (t # JNull # rest) \<Rightarrow> Inl (TypeError ''Cannot set properties of null'')
      | JArr [t] \<Rightarrow> Inl (TypeError ''Cannot set properties of undefined'')
      | JArr [] \<Rightarrow> Inl (TypeError ''Cannot set properties of undefined'')
      | _ \<Rightarrow> Inl (OutsideModel ''a property set on an array, a Buffer or a Date''))"

fun arbitraryObjectToJsonML :: "'n host \<Rightarrow> 'n jsval \<Rightarrow> error + 'n jsval" where
  "arbitraryObjectToJsonML H JNull = Inr (JArr [JStr ''null''])"
| "arbitraryObjectToJsonML H JUndefined = Inr (JArr [JStr ''undefined''])"
| "arbitraryObjectToJsonML H (JStr s) = Inr (JArr [JStr ''string'', JStr s])"
| "arbitraryObjectToJsonML H (JNum n) = Inr (JArr [JStr ''number'', JStr (numberToString H n)])"
| "arbitraryObjectToJsonML H (JDate d) = Inr (JArr [JStr ''date'', JStr (toISOString H d)])"
| "arbitraryObjectToJsonML H (JBool b) = Inr (JArr [JStr (if b then ''true'' else ''false'')])"
| "arbitraryObjectToJsonML H (JBuffer b) =
     Inr (JArr [JStr ''buffer'', JObj [(''encoding'', JStr ''base64'')], JStr (toBase64 H b)])"
| "arbitraryObjectToJsonML H (JArr xs) =
     (case sequenceE (map (arbitraryObjectToJsonML H) xs) of
        Inl e \<Rightarrow> Inl e
      | Inr ys \<Rightarrow> Inr (JArr (JStr ''array'' # ys)))"
| "arbitraryObjectToJsonML H (JObj ps) =
     (case sequenceE (map (\<lambda>(prop, v).
              case arbitraryObjectToJsonML H v of
                Inl e \<Rightarrow> Inl e
              | Inr j \<Rightarrow>
                  (case expandElement j of
                     Inl e \<Rightarrow> Inl e
                   | Inr enc \<Rightarrow> setAttribute enc ''name'' (JStr prop))) ps) of
        Inl e \<Rightarrow> Inl e
      | Inr ys \<Rightarrow> Inr (JArr (JStr ''object'' # ys)))"











definition isJsonML :: "'n host \<Rightarrow> 'n jsval \<Rightarrow> bool" where
  "isJsonML H doc =
     (case doc of
        JObj ps \<Rightarrow> (case map_of ps ''JsonML'' of Some inner \<Rightarrow> truthy H inner | None \<Rightarrow> False)
      | _ \<Rightarrow> False)"

definition unwrapJsonML :: "'n host \<Rightarrow> 'n jsval \<Rightarrow> 'n jsval" where
  "unwrapJsonML H doc =
     (case doc of
        JObj ps \<Rightarrow>
          (case map_of ps ''JsonML'' of
             Some inner \<Rightarrow> if truthy H inner then inner else doc
           | None \<Rightarrow> doc)
      | _ \<Rightarrow> doc)"

definition childName :: "'n host \<Rightarrow> 'n jsval \<Rightarrow> error + string" where
  "childName H child =
     (case (case child of
              JArr ys \<Rightarrow> getMember (case ys of t # e1 # r \<Rightarrow> e1 | _ \<Rightarrow> JUndefined) ''name''
            | JStr s \<Rightarrow> (case s of t # e1 # r \<Rightarrow> Inr JUndefined
                         | _ \<Rightarrow> Inl (TypeError ''Cannot read properties of undefined''))
            | JBuffer b \<Rightarrow> (case b of t # e1 # r \<Rightarrow> Inr JUndefined
                         | _ \<Rightarrow> Inl (TypeError ''Cannot read properties of undefined''))
            | JObj ps \<Rightarrow>
                getMember (case map_of ps ''1'' of Some e1 \<Rightarrow> e1 | None \<Rightarrow> JUndefined) ''name''
            | JNull \<Rightarrow> Inl (TypeError ''Cannot read properties of null'')
            | _ \<Rightarrow> Inl (TypeError ''Cannot read properties of undefined'')) of
        Inl e \<Rightarrow> Inl e
      | Inr nm \<Rightarrow> Inr (js_toString H nm))"

function jsonMLToArbitraryObject_body :: "'n host \<Rightarrow> 'n jsval \<Rightarrow> error + 'n jsval" where
  "jsonMLToArbitraryObject_body H (JArr xs) =
     (let tag = (case xs of [] \<Rightarrow> JUndefined | t # r \<Rightarrow> t);
          e1 = (case xs of t # e # r \<Rightarrow> e | _ \<Rightarrow> JUndefined);
          hasAttributes = isObjectLike e1;
          attributes = (if hasAttributes then e1 else JObj []);
          children = drop (if hasAttributes then 2 else 1) xs;
          k = js_toString H tag
      in if k = ''true'' then Inr (JBool True)
         else if k = ''false'' then Inr (JBool False)
         else if k = ''null'' then Inr JNull
         else if k = ''undefined'' then Inr JUndefined
         else if k \<in> set objectPrototypeKeys
         then Inl (OutsideModel ''a member of Object.prototype'')
         else if tag = JStr ''number'' then Inr (JNum (parseFloat H (js_join H [] children)))
         else if tag = JStr ''date'' then Inr (JDate (newDate H (js_join H [] children)))
         else if tag = JStr ''string'' then Inr (JStr (js_join H [] children))
         else if tag = JStr ''buffer''
         then (case getMember attributes ''encoding'' of
                 Inl e \<Rightarrow> Inl e
               | Inr enc \<Rightarrow>
                   (case bufferFrom H (js_join H [] children) enc of
                      Inl e \<Rightarrow> Inl e
                    | Inr b \<Rightarrow> Inr (JBuffer b)))
         else if tag = JStr ''array''
         then (case sequenceE (map (\<lambda>child. jsonMLToArbitraryObject_body H (unwrapJsonML H child))
                        children) of
                 Inl e \<Rightarrow> Inl e
               | Inr vs \<Rightarrow> Inr (JArr vs))
         else if tag = JStr ''object''
         then (case sequenceE (map (\<lambda>child.
                        case childName H child of
                          Inl e \<Rightarrow> Inl e
                        | Inr nm \<Rightarrow>
                            (case jsonMLToArbitraryObject_body H (unwrapJsonML H child) of
                               Inl e \<Rightarrow> Inl e
                             | Inr v \<Rightarrow> Inr (nm, v))) children) of
                 Inl e \<Rightarrow> Inl e
               | Inr es \<Rightarrow> Inr (JObj (fromEntries es)))
         else Inr JUndefined)"
| "jsonMLToArbitraryObject_body H (JStr s) = Inr JUndefined"
| "jsonMLToArbitraryObject_body H (JBuffer b) = Inr JUndefined"
| "jsonMLToArbitraryObject_body H JUndefined = Inl (TypeError ''Cannot read properties of undefined'')"
| "jsonMLToArbitraryObject_body H JNull = Inl (TypeError ''Cannot read properties of null'')"
| "jsonMLToArbitraryObject_body H (JBool b) = Inl (TypeError ''jsonml.slice is not a function'')"
| "jsonMLToArbitraryObject_body H (JNum n) = Inl (TypeError ''jsonml.slice is not a function'')"
| "jsonMLToArbitraryObject_body H (JDate d) = Inl (TypeError ''jsonml.slice is not a function'')"
| "jsonMLToArbitraryObject_body H (JObj ps) = Inl (TypeError ''jsonml.slice is not a function'')"
  by pat_completeness auto
termination
proof (relation "measure (\<lambda>(H, v). size v)")
  show "wf (measure (\<lambda>(H, v). size v))" by simp
next
  fix H :: "'n host" and xs :: "'n jsval list" and x xa xb xc xd xe child
  assume "xd = drop (if xb then 2 else 1) xs" and "child \<in> set xd"
  then have "child \<in> set xs"
    by (meson in_set_dropD)
  then have "size child < size (JArr xs)"
    by (simp add: less_Suc_eq_le size_list_estimation')
  have sm: "size inner < Suc (size_list (size_prod (\<lambda>x. 0) size) ps)"
    if "map_of ps k = Some inner" for ps :: "(string \<times> 'n jsval) list" and k inner
    using that by (induction ps) (auto split: if_splits)
  have su: "size (unwrapJsonML H child) \<le> size child"
    by (auto simp: unwrapJsonML_def split: jsval.splits option.splits dest!: sm)
  from \<open>size child < size (JArr xs)\<close> su
  show "((H, unwrapJsonML H child), H, JArr xs) \<in> measure (\<lambda>(H, v). size v)"
    by simp
next
  fix H :: "'n host" and xs :: "'n jsval list" and x xa xb xc xd xe child nm
  assume "xd = drop (if xb then 2 else 1) xs" and "child \<in> set xd"
  then have "child \<in> set xs"
    by (meson in_set_dropD)
  then have "size child < size (JArr xs)"
    by (simp add: less_Suc_eq_le size_list_estimation')
  have sm: "size inner < Suc (size_list (size_prod (\<lambda>x. 0) size) ps)"
    if "map_of ps k = Some inner" for ps :: "(string \<times> 'n jsval) list" and k inner
    using that by (induction ps) (auto split: if_splits)
  have su: "size (unwrapJsonML H child) \<le> size child"
    by (auto simp: unwrapJsonML_def split: jsval.splits option.splits dest!: sm)
  from \<open>size child < size (JArr xs)\<close> su
  show "((H, unwrapJsonML H child), H, JArr xs) \<in> measure (\<lambda>(H, v). size v)"
    by simp
qed

definition jsonMLToArbitraryObject :: "'n host \<Rightarrow> 'n jsval \<Rightarrow> error + 'n jsval" where
  "jsonMLToArbitraryObject H jsonml = jsonMLToArbitraryObject_body H (unwrapJsonML H jsonml)"

definition encode_document :: "'n host \<Rightarrow> 'n jsval \<Rightarrow> error + 'n jsval" where
  "encode_document H obj =
     (case arbitraryObjectToJsonML H obj of
        Inl e \<Rightarrow> Inl e
      | Inr j \<Rightarrow>
          (case expandElement j of
             Inl e \<Rightarrow> Inl e
           | Inr arbitrary \<Rightarrow> setAttribute arbitrary ''xmlns'' (JStr arbitraryNS)))"



definition decode_parsed :: "'n host \<Rightarrow> 'n jsval \<Rightarrow> error + 'n jsval" where
  "decode_parsed H parsed =
     (case parsed of
        JArr xs \<Rightarrow>
          (let e1 = (case xs of t # e # r \<Rightarrow> e | _ \<Rightarrow> JUndefined)
           in if isObjectLike e1 \<and> getMember e1 ''xmlns'' = Inr (JStr arbitraryNS)
              then jsonMLToArbitraryObject H parsed
              else Inr (JObj [(''JsonML'', parsed)]))
      | _ \<Rightarrow> Inr (JObj [(''JsonML'', parsed)]))"

definition decode ::
  "'n host \<Rightarrow> (string \<Rightarrow> error + 'n jsval) \<Rightarrow> string \<Rightarrow> error + 'n jsval" where
  "decode H onml_parse input =
     (case onml_parse input of Inl e \<Rightarrow> Inl e | Inr parsed \<Rightarrow> decode_parsed H parsed)"






subsection \<open>Example instances\<close>

text \<open>
  A dataset model for evaluating the definitions: a record value is one string, which is
  a hash URL when it starts with \<open>hash://sha256/\<close>; the stand-in for the content hash
  pads or cuts the value to 32 bytes; no attachment is present; every record and every
  configuration is valid; the clock reads 1000.
\<close>

definition example_model :: "(string, unit) model" where
  "example_model =
     \<lparr>listHashURLs = (\<lambda>d. if prefix ''hash://sha256/'' d
                           then [\<lparr>hu_hash = drop 14 d, hu_text = d\<rparr>] else []),
      objectHash = (\<lambda>d. take 32 (d @ replicate 32 (CHR ''0''))),
      attachments_has = (\<lambda>h. False),
      validateRecord = (\<lambda>_ _. None),
      validateConfig = (\<lambda>_. None),
      date_now = 1000\<rparr>"

definition no_dataset :: "unit dataset" where
  "no_dataset = \<lparr>meta_file = None, objects = [], obj_holds = []\<rparr>"

text \<open>
  The dataset after \<open>create\<close>, \<open>write('a', 'one')\<close> and \<open>write('a', 'two')\<close>: version 2,
  the one record \<open>a\<close>, and the objects of both versions in the object store.
\<close>

definition example_meta :: "unit datasetMeta" where
  "example_meta =
     \<lparr>version = 2, created = 1000, updated = 1000, settings = (),
      records = [(''a'', \<lparr>hash = ''two00000000000000000000000000000'', links = [],
                          rversion = Some 2\<rparr>)]\<rparr>"

definition example_dataset :: "unit dataset" where
  "example_dataset =
     \<lparr>meta_file = Some example_meta,
      objects = [''two00000000000000000000000000000'', ''one00000000000000000000000000000''],
      obj_holds = []\<rparr>"

definition missing_url :: string where
  "missing_url = ''hash://sha256/deadbeef00000000000000000000000000000000000000000000000000000000''"

text \<open>A dataset at version 3 with the records \<open>a\<close>, \<open>b\<close> and \<open>c\<close> and their objects.\<close>

definition example_abc_meta :: "unit datasetMeta" where
  "example_abc_meta =
     \<lparr>version = 3, created = 1000, updated = 1000, settings = (),
      records = [(''a'', \<lparr>hash = ''A0000000000000000000000000000000'', links = [], rversion = Some 1\<rparr>),
                 (''b'', \<lparr>hash = ''B0000000000000000000000000000000'', links = [], rversion = Some 2\<rparr>),
                 (''c'', \<lparr>hash = ''C0000000000000000000000000000000'', links = [], rversion = Some 3\<rparr>)]\<rparr>"

definition example_abc :: "unit dataset" where
  "example_abc =
     \<lparr>meta_file = Some example_abc_meta,
      objects = [''C0000000000000000000000000000000'', ''B0000000000000000000000000000000'',
                 ''A0000000000000000000000000000000''],
      obj_holds = []\<rparr>"

text \<open>
  An attachment store with one attachment (the SHA-256 of \<open>hello\<close>) that is held once and
  whose meta names one linker; and a \<open>readPath.meta\<close> under which every path resolves to a
  record without links.
\<close>

definition example_hash :: string where
  "example_hash = ''2cf24dba5fb0a30e26e83b2ac5b9e29e1b161e5c1fa7425e73043362938b9824''"

definition example_attachments :: "unit attachments" where
  "example_attachments =
     \<lparr>blobStore = {example_hash},
      metaStore = [example_hash \<mapsto>
         \<lparr>a_created = 1, a_updated = 2, linkers = [''datasets/u/n/k''], a_other = ()\<rparr>],
      holding = [example_hash \<mapsto> 1]\<rparr>"

definition no_links :: "string list \<Rightarrow> (string \<times> string list option) list" where
  "no_links paths = map (\<lambda>p. (p, Some [])) paths"

text \<open>
  Errors as \<open>JSON.parse\<close> and borc's decoder throw them, a decoder that always fails,
  and a request with a JSON body that does not parse.
\<close>

definition json_syntax_error :: jsError where
  "json_syntax_error =
     \<lparr>e_statusCode = None, e_code = None, e_name = ''SyntaxError'',
      e_message = ''Unexpected end of JSON input'',
      e_stack = ''SyntaxError: Unexpected end of JSON input at JSON.parse (<anonymous>)''\<rparr>"

definition cbor_decode_error :: jsError where
  "cbor_decode_error =
     \<lparr>e_statusCode = None, e_code = None, e_name = ''Error'',
      e_message = ''Failed to parse'',
      e_stack = ''Error: Failed to parse at Decoder.decodeFirst (/app/node_modules/borc/src/decoder.js:592:15)''\<rparr>"

definition failing_decode :: "codec \<Rightarrow> string \<Rightarrow> jsError + unit" where
  "failing_decode c b =
     (if codec_name c = ''json'' then Inl json_syntax_error else Inl cbor_decode_error)"

definition json_request :: request where
  "json_request =
     \<lparr>is_json = True, is_cbor = False, req_is = Some ''application/json'', body = ''{''\<rparr>"

text \<open>
  Modelled from the spec: \<open>codec/cbor.js\<close> is not among the sources either;
  \<open>application/cbor\<close> is the media type the servers decode with it. The registry of the
  examples holds the CBOR, JSON and XML codecs, in the order of the exports.
\<close>

definition cbor_codec :: codec where
  "cbor_codec = \<lparr>codec_name = ''cbor'', handles = [''application/cbor''], extensions = [''cbor'']\<rparr>"

definition example_exports :: "codec list" where
  "example_exports = [cbor_codec, json_codec, xml_codec]"

definition cbor_request :: request where
  "cbor_request =
     \<lparr>is_json = False, is_cbor = True, req_is = Some ''application/cbor'', body = ''x''\<rparr>"

text \<open>
  A host for the examples of the XML codec: numbers and dates are integers, written in
  decimal, and base64 is the identity on the text of a buffer.
\<close>

function digitsOf :: "int \<Rightarrow> string" where
  "digitsOf n = (if n < 10 then [char_of (48 + n)] else digitsOf (n div 10) @ [char_of (48 + n mod 10)])"
  by pat_completeness auto
termination
  by (relation "measure nat") auto

definition show_int :: "int \<Rightarrow> string" where
  "show_int n = (if n < 0 then CHR ''-'' # digitsOf (- n) else digitsOf n)"

definition parse_int :: "string \<Rightarrow> int" where
  "parse_int s = (case s of [] \<Rightarrow> 0 | c # r \<Rightarrow> if c = CHR ''-'' then - decimal r else decimal s)"

definition example_host :: "int host" where
  "example_host =
     \<lparr>numberToString = show_int,
      numberTruthy = (\<lambda>n. n \<noteq> 0),
      parseFloat = parse_int,
      toISOString = show_int,
      newDate = parse_int,
      dateToString = show_int,
      toBase64 = (\<lambda>b. b),
      bufferFrom = (\<lambda>s enc. if enc = JStr ''base64'' \<or> enc = JUndefined then Inr s
                              else Inl (TypeError ''Unknown encoding'')),
      bufferToString = (\<lambda>b. b)\<rparr>"



section \<open>Theorems\<close>

subsection \<open>The attachment store\<close>

lemma fs_update_link_present:
  "fs_update (Some m) (link_callback now dataPaths) () =
     (if set dataPaths \<subseteq> set (linkers m) then (Inr (), Some m, ())
      else (Inr (), Some (m\<lparr>linkers := linkers m @ filter (\<lambda>x. x \<notin> set (linkers m)) dataPaths,
                             a_updated := now\<rparr>), ()))"
  by (auto simp: fs_update_def link_callback_def Let_def filter_empty_conv)

text \<open>
  Claim C10. When the meta of the attachment exists, \<open>link\<close> succeeds; if every given
  path is already a linker the whole attachment store, the meta and its \<open>updated\<close>
  timestamp included, is left as it was; otherwise the paths that are not yet linkers
  are appended to \<open>linkers\<close>, in the order given, and \<open>updated\<close> becomes the current time.
\<close>

theorem link_only_writes_new_paths:
  assumes "metaStore s hexHash = Some m"
  shows "link now hexHash dataPaths s =
           (Inr (),
            if set dataPaths \<subseteq> set (linkers m) then s
            else s\<lparr>metaStore := (metaStore s)(hexHash \<mapsto>
                     m\<lparr>linkers := linkers m @ filter (\<lambda>x. x \<notin> set (linkers m)) dataPaths,
                       a_updated := now\<rparr>)\<rparr>)"
proof (cases "set dataPaths \<subseteq> set (linkers m)")
  case True
  have "(metaStore s)(hexHash \<mapsto> m) = metaStore s"
    using assms by (simp add: fun_upd_idem)
  then show ?thesis
    using True assms by (simp add: link_def fs_update_link_present)
next
  case False
  then show ?thesis
    using assms by (simp add: link_def fs_update_link_present)
qed

theorem link_only_writes_new_paths_witness:
  "link 50 ''ab'' [''p'', ''q'']
     \<lparr>blobStore = {''ab''},
      metaStore = [''ab'' \<mapsto> \<lparr>a_created = 1, a_updated = 2, linkers = [''q'', ''p''], a_other = ()\<rparr>],
      holding = Map.empty\<rparr>
   = (Inr (),
      \<lparr>blobStore = {''ab''},
       metaStore = [''ab'' \<mapsto> \<lparr>a_created = 1, a_updated = 2, linkers = [''q'', ''p''], a_other = ()\<rparr>],
       holding = Map.empty\<rparr>)
   \<and> link 50 ''ab'' [''p'', ''r'', ''r'']
     \<lparr>blobStore = {''ab''},
      metaStore = [''ab'' \<mapsto> \<lparr>a_created = 1, a_updated = 2, linkers = [''q'', ''p''], a_other = ()\<rparr>],
      holding = Map.empty\<rparr>
   = (Inr (),
      \<lparr>blobStore = {''ab''},
       metaStore = [''ab'' \<mapsto> \<lparr>a_created = 1, a_updated = 50,
                                linkers = [''q'', ''p'', ''r'', ''r''], a_other = ()\<rparr>],
       holding = Map.empty\<rparr>)"
  using link_only_writes_new_paths [of
      "\<lparr>blobStore = {''ab''},
        metaStore = [''ab'' \<mapsto> \<lparr>a_created = 1, a_updated = 2, linkers = [''q'', ''p''], a_other = ()\<rparr>],
        holding = Map.empty\<rparr>" "''ab''"
      "\<lparr>a_created = 1, a_updated = 2, linkers = [''q'', ''p''], a_other = ()\<rparr>" 50 "[''p'', ''q'']"]
    link_only_writes_new_paths [of
      "\<lparr>blobStore = {''ab''},
        metaStore = [''ab'' \<mapsto> \<lparr>a_created = 1, a_updated = 2, linkers = [''q'', ''p''], a_other = ()\<rparr>],
        holding = Map.empty\<rparr>" "''ab''"
      "\<lparr>a_created = 1, a_updated = 2, linkers = [''q'', ''p''], a_other = ()\<rparr>" 50 "[''p'', ''r'', ''r'']"]
  by simp

subsection \<open>The base data model\<close>


lemma updateMeta_Inr:
  assumes "meta_file s = Some m" and "updateMeta M block s = (Inr u, s')"
  shows "\<exists>cfg' result objs1 recs pushed.
           block (m\<lparr>version := version m + 1, updated := date_now M\<rparr>) (objects s)
             = (Inr (cfg', result), objs1)
         \<and> checkRecords (version cfg') (records result) = (Inr recs, pushed)
         \<and> s' = s\<lparr>meta_file := Some (result\<lparr>records := fromEntries
                      (js_sort (\<lambda>a b. stringNaturalCompare (fst a) (fst b)) recs)\<rparr>),
                  objects := retain (obj_holds s) (map (\<lambda>(k, r). hash r) (records m) @ pushed) objs1\<rparr>"
  using assms
  by (auto simp: updateMeta_def fs_update_def updateMeta_callback_def Let_def
           split: prod.splits sum.splits option.splits)

lemma updateMeta_block_Inl:
  assumes "meta_file s = Some m"
    and "block (m\<lparr>version := version m + 1, updated := date_now M\<rparr>) (objects s) = (Inl e, objs1)"
  shows "updateMeta M block s =
           (Inl e, s\<lparr>objects := retain (obj_holds s) (map (\<lambda>(k, r). hash r) (records m)) objs1\<rparr>)"
  using assms
  by (simp add: updateMeta_def fs_update_def updateMeta_callback_def Let_def)

lemma retain_set:
  "set (retain holds keep objs) = {h \<in> set objs. h \<in> set keep \<or> h \<in> set holds}"
  by (auto simp: retain_def)

lemma writeLoop_append:
  "writeLoop M (pre @ rest) recs inc objs =
     (case writeLoop M pre recs inc objs of
        (Inl e, ob) \<Rightarrow> (Inl e, ob)
      | (Inr (r, i), ob) \<Rightarrow> writeLoop M rest r i ob)"
  by (induction pre arbitrary: recs inc objs) (auto split: prod.splits sum.splits)

lemma writeStep_missing:
  "filter (\<lambda>l. \<not> attachments_has M (hu_hash l)) (listHashURLs M d) \<noteq> [] \<Longrightarrow>
   writeStep M (rid, Some d) recs inc objs =
     (Inl (MissingAttachments
        (map hu_text (filter (\<lambda>l. \<not> attachments_has M (hu_hash l)) (listHashURLs M d)))), objs)"
  by (simp add: writeStep_def Let_def)

lemma writeStep_objects_mono:
  "writeStep M entry recs inc objs = (r, objs') \<Longrightarrow> set objs \<subseteq> set objs'"
  by (cases entry) (auto simp: writeStep_def Let_def objectStore_write_def
        split: option.splits if_splits)

lemma writeLoop_objects_mono:
  "writeLoop M es recs inc objs = (r, objs') \<Longrightarrow> set objs \<subseteq> set objs'"
proof (induction es arbitrary: recs inc objs)
  case Nil
  then show ?case by simp
next
  case (Cons entry es)
  obtain r1 o1 where st: "writeStep M entry recs inc objs = (r1, o1)"
    by (cases "writeStep M entry recs inc objs")
  have m1: "set objs \<subseteq> set o1"
    using writeStep_objects_mono [OF st] .
  show ?case
  proof (cases r1)
    case (Inl e)
    with Cons.prems st m1 show ?thesis by simp
  next
    case (Inr p)
    obtain recs' inc' where p: "p = (recs', inc')" by (cases p)
    from Cons.prems st Inr p have "writeLoop M es recs' inc' o1 = (r, objs')" by simp
    from Cons.IH [OF this] m1 show ?thesis by blast
  qed
qed

text \<open>
  Claim C1, as amended. On an existing dataset, when the entries before it are processed
  without error and a record value references a hash URL for which \<open>has\<close> is false,
  \<open>writeEntries\<close> fails with \<open>MissingAttachments\<close> carrying the text of the missing hash
  URLs of that value, in order; the meta file, and so the version and the records, is
  the one stored before the call; and the object store afterwards holds exactly the
  objects, stored before or written by the earlier entries, whose hash is the hash of a
  record of that meta or is held. In particular every stored object of a record stays.
\<close>

theorem writeEntries_missing_attachments:
  assumes "meta_file s = Some m"
    and "writeLoop M pre (records m) [] (objects s) = (Inr (recs, inc), objs)"
    and "filter (\<lambda>l. \<not> attachments_has M (hu_hash l)) (listHashURLs M d) \<noteq> []"
    and "writeEntries M (pre @ (rid, Some d) # post) ow s = (r, s')"
  shows "r = Inl (MissingAttachments
               (map hu_text (filter (\<lambda>l. \<not> attachments_has M (hu_hash l)) (listHashURLs M d))))
       \<and> meta_file s' = Some m
       \<and> set (objects s') =
           {h \<in> set objs. h \<in> set (map (\<lambda>(k, r). hash r) (records m)) \<or> h \<in> set (obj_holds s)}
       \<and> {h \<in> set (objects s). h \<in> set (map (\<lambda>(k, r). hash r) (records m))} \<subseteq> set (objects s')"
proof -
  let ?missing = "map hu_text (filter (\<lambda>l. \<not> attachments_has M (hu_hash l)) (listHashURLs M d))"
  let ?draft = "m\<lparr>version := version m + 1, updated := date_now M\<rparr>"
  have loop: "writeLoop M (pre @ (rid, Some d) # post) (records ?draft) [] (objects s)
                = (Inl (MissingAttachments ?missing), objs)"
    using assms(2,3) by (simp add: writeLoop_append writeStep_missing)
  have blk: "writeEntries_block M (pre @ (rid, Some d) # post) ow ?draft (objects s)
               = (Inl (MissingAttachments ?missing), objs)"
    using loop by (simp add: writeEntries_block_def)
  have res: "writeEntries M (pre @ (rid, Some d) # post) ow s =
          (Inl (MissingAttachments ?missing),
           s\<lparr>objects := retain (obj_holds s) (map (\<lambda>(k, r). hash r) (records m)) objs\<rparr>)"
    unfolding writeEntries_def
    using updateMeta_block_Inl [of s m "writeEntries_block M (pre @ (rid, Some d) # post) ow" M
        "MissingAttachments ?missing" objs] assms(1) blk
    by simp
  have mono: "set (objects s) \<subseteq> set objs"
    using writeLoop_objects_mono [OF assms(2)] .
  from res assms(4) have r: "r = Inl (MissingAttachments ?missing)"
    and s': "s' = s\<lparr>objects := retain (obj_holds s) (map (\<lambda>(k, r). hash r) (records m)) objs\<rparr>"
    by simp_all
  show ?thesis
    using r s' assms(1) mono by (auto simp: retain_set)
qed

theorem writeEntries_missing_attachments_witness:
  "meta_file example_dataset = Some example_meta
   \<and> writeLoop example_model [(''b'', Some ''three'')] (records example_meta) []
         (objects example_dataset)
       = (Inr ([(''a'', \<lparr>hash = ''two00000000000000000000000000000'', links = [], rversion = Some 2\<rparr>),
                (''b'', \<lparr>hash = ''three000000000000000000000000000'', links = [], rversion = None\<rparr>)],
               [''b'']),
          [''three000000000000000000000000000'', ''two00000000000000000000000000000'',
           ''one00000000000000000000000000000''])
   \<and> fst (writeEntries example_model [(''b'', Some ''three''), (''k'', Some missing_url)] False
            example_dataset) = Inl (MissingAttachments [missing_url])
   \<and> meta_file (snd (writeEntries example_model
            [(''b'', Some ''three''), (''k'', Some missing_url)] False example_dataset))
       = Some example_meta
   \<and> set (objects (snd (writeEntries example_model
            [(''b'', Some ''three''), (''k'', Some missing_url)] False example_dataset)))
       = {''two00000000000000000000000000000''}"
proof -
  let ?W = "writeEntries example_model ([(''b'', Some ''three'')] @ (''k'', Some missing_url) # [])
              False example_dataset"
  have h1: "meta_file example_dataset = Some example_meta"
    by (simp add: example_dataset_def)
  have h2: "writeLoop example_model [(''b'', Some ''three'')] (records example_meta) []
         (objects example_dataset)
       = (Inr ([(''a'', \<lparr>hash = ''two00000000000000000000000000000'', links = [], rversion = Some 2\<rparr>),
                (''b'', \<lparr>hash = ''three000000000000000000000000000'', links = [], rversion = None\<rparr>)],
               [''b'']),
          [''three000000000000000000000000000'', ''two00000000000000000000000000000'',
           ''one00000000000000000000000000000''])"
    by code_simp
  have h3: "filter (\<lambda>l. \<not> attachments_has example_model (hu_hash l))
              (listHashURLs example_model missing_url) \<noteq> []"
    by code_simp
  have m: "map hu_text (filter (\<lambda>l. \<not> attachments_has example_model (hu_hash l))
              (listHashURLs example_model missing_url)) = [missing_url]"
    by code_simp
  have h4: "?W = (fst ?W, snd ?W)"
    by simp
  have k: "{h \<in> set [''three000000000000000000000000000'', ''two00000000000000000000000000000'',
           ''one00000000000000000000000000000'']. h \<in> set (map (\<lambda>(k, r). hash r) (records example_meta))
             \<or> h \<in> set (obj_holds example_dataset)} = {''two00000000000000000000000000000''}"
    by (auto simp: example_meta_def example_dataset_def)
  from writeEntries_missing_attachments [OF h1 h2 h3 h4] h1 h2 m k
  show ?thesis
    by simp
qed

text \<open>
  The claim as stated fails in its last part. After \<open>create\<close>, \<open>write('a', 'one')\<close> and
  \<open>write('a', 'two')\<close> the object store holds the objects of both versions; a
  \<open>writeEntries\<close> that fails for a missing attachment runs \<open>retain\<close> on the hashes of
  the current records only, and the object of the version before is deleted.
\<close>

theorem writeEntries_missing_attachments_counterexample:
  "(let s1 = snd (create example_model () no_dataset);
        s2 = snd (write_record example_model ''a'' (Some ''one'') s1);
        s3 = snd (write_record example_model ''a'' (Some ''two'') s2);
        (r, s4) = writeEntries example_model [(''k'', Some missing_url)] False s3
    in s3 = example_dataset
     \<and> r = Inl (MissingAttachments [missing_url])
     \<and> objects s3 = [''two00000000000000000000000000000'', ''one00000000000000000000000000000'']
     \<and> objects s4 = [''two00000000000000000000000000000''])"
  by code_simp













lemma set_insertIndex: "set (insertIndex k v ps) = insert (k, v) (set ps)"
  by (induction ps) (auto split: if_splits)

lemma keys_obj_set: "fst ` set (obj_set ob k v) = insert k (fst ` set ob)"
proof -
  have "fst ` set (map (\<lambda>(k', v'). if k' = k then (k', v) else (k', v')) ob) = fst ` set ob"
    by (induction ob) auto
  then show ?thesis
    by (auto simp: obj_set_def set_insertIndex)
qed

lemma keys_obj_delete: "fst ` set (obj_delete ob k) = fst ` set ob - {k}"
  by (induction ob) (auto simp: obj_delete_def)

lemma keys_fromEntries_aux:
  "fst ` set (foldl (\<lambda>ob (k, v). obj_set ob k v) ob es) = fst ` set ob \<union> fst ` set es"
proof (induction es arbitrary: ob)
  case Nil
  then show ?case by simp
next
  case (Cons e es)
  obtain k v where e: "e = (k, v)" by (cases e)
  have "fst ` set (foldl (\<lambda>ob (k, v). obj_set ob k v) (obj_set ob k v) es)
          = insert k (fst ` set ob) \<union> fst ` set es"
    unfolding Cons.IH keys_obj_set ..
  then show ?case
    unfolding e by simp
qed

lemma keys_fromEntries: "fst ` set (fromEntries es) = fst ` set es"
  by (simp add: fromEntries_def keys_fromEntries_aux)

lemma set_insort_cmp: "set (insort_cmp cmp x ys) = insert x (set ys)"
  by (induction ys) auto

lemma set_js_sort: "set (js_sort cmp xs) = set xs"
  by (induction xs) (auto simp: js_sort_def set_insort_cmp)

lemma checkRecords_Inr:
  "checkRecords v recs = (Inr out, pushed) \<Longrightarrow>
     map fst out = map fst recs \<and> pushed = map (\<lambda>(k, r). hash r) recs"
  by (induction recs arbitrary: out pushed)
     (auto simp: Let_def split: if_splits prod.splits sum.splits)

lemma checkRecords_pushed:
  "checkRecords v recs = (res, pushed) \<Longrightarrow> set pushed \<subseteq> (\<lambda>(k, r). hash r) ` set recs"
  by (induction recs arbitrary: res pushed)
     (auto simp: Let_def split: if_splits prod.splits sum.splits)

lemma writeStep_Some_Inr:
  "writeStep M (rid, Some d) recs inc objs = (Inr (recs', inc'), objs') \<Longrightarrow>
     fst ` set recs' = insert rid (fst ` set recs) \<and> inc' = rid # inc"
proof -
  have "map_of recs rid = Some r \<Longrightarrow> insert rid (fst ` set recs) = fst ` set recs" for r
    by (metis fst_conv image_eqI insert_absorb map_of_SomeD)
  then show "writeStep M (rid, Some d) recs inc objs = (Inr (recs', inc'), objs') \<Longrightarrow>
     fst ` set recs' = insert rid (fst ` set recs) \<and> inc' = rid # inc"
    unfolding writeStep_def Let_def obj_get_def
    by (clarsimp split: option.splits if_splits simp: keys_obj_set)
qed

lemma writeLoop_all_written:
  assumes "\<forall>e \<in> set es. snd e \<noteq> None"
    and "writeLoop M es recs inc objs = (Inr (recs', inc'), objs')"
  shows "fst ` set recs' = fst ` set recs \<union> fst ` set es \<and> set inc' = set inc \<union> fst ` set es"
  using assms
proof (induction es arbitrary: recs inc objs)
  case Nil
  then show ?case by simp
next
  case (Cons entry es)
  obtain rid d where e: "entry = (rid, Some d)"
    using Cons.prems(1) by (cases entry) auto
  obtain r1 o1 where st: "writeStep M entry recs inc objs = (r1, o1)"
    by (cases "writeStep M entry recs inc objs")
  show ?case
  proof (cases r1)
    case (Inl err)
    with Cons.prems(2) st show ?thesis by simp
  next
    case (Inr p)
    obtain recs1 inc1 where p: "p = (recs1, inc1)" by (cases p)
    from st Inr p e have k: "fst ` set recs1 = insert rid (fst ` set recs)" and i: "inc1 = rid # inc"
      using writeStep_Some_Inr [of M rid d recs inc objs recs1 inc1 o1] by simp_all
    from Cons.prems(2) st Inr p have "writeLoop M es recs1 inc1 o1 = (Inr (recs', inc'), objs')"
      by simp
    from Cons.IH [OF _ this] Cons.prems(1) k i e show ?thesis by auto
  qed
qed

lemma keys_overwrite_fold:
  "fst ` set (foldl (\<lambda>r rid. if rid \<notin> set inc then obj_delete r rid else r) recs prev)
     = fst ` set recs - {rid \<in> set prev. rid \<notin> set inc}"
proof (induction prev arbitrary: recs)
  case Nil
  then show ?case by simp
next
  case (Cons p prev)
  show ?case
  proof (cases "p \<in> set inc")
    case True
    then show ?thesis
      using Cons.IH [of recs] by auto
  next
    case False
    have "fst ` set (obj_delete recs p) - {rid \<in> set prev. rid \<notin> set inc}
            = fst ` set recs - {rid \<in> set (p # prev). rid \<notin> set inc}"
      unfolding keys_obj_delete using False by auto
    then show ?thesis
      using False Cons.IH [of "obj_delete recs p"] by simp
  qed
qed

lemma updateMeta_objects_Inr:
  assumes "meta_file s = Some m"
    and "block (m\<lparr>version := version m + 1, updated := date_now M\<rparr>) (objects s)
           = (Inr (cfg', result), objs1)"
    and "updateMeta M block s = (r, s')"
  shows "set (objects s') \<subseteq> set (obj_holds s) \<union> (\<lambda>(k, r). hash r) ` set (records m)
            \<union> (\<lambda>(k, r). hash r) ` set (records result)"
proof -
  obtain res pushed where c: "checkRecords (version cfg') (records result) = (res, pushed)"
    by (cases "checkRecords (version cfg') (records result)")
  have p: "set pushed \<subseteq> (\<lambda>(k, r). hash r) ` set (records result)"
    using checkRecords_pushed [OF c] .
  have "objects s' = retain (obj_holds s) (map (\<lambda>(k, r). hash r) (records m) @ pushed) objs1"
    using assms c
    by (auto simp: updateMeta_def fs_update_def updateMeta_callback_def Let_def
        split: sum.splits option.splits)
  then show ?thesis
    using p by (auto simp: retain_def)
qed

lemma updateMeta_objects_Inl:
  assumes "meta_file s = Some m"
    and "block (m\<lparr>version := version m + 1, updated := date_now M\<rparr>) (objects s) = (Inl e, objs1)"
    and "updateMeta M block s = (r, s')"
  shows "set (objects s') \<subseteq> set (obj_holds s) \<union> (\<lambda>(k, r). hash r) ` set (records m)"
  using assms
  by (auto simp: updateMeta_def fs_update_def updateMeta_callback_def Let_def retain_def)


lemma writeEntries_overwrite_keys:
  assumes "meta_file s = Some m"
    and "\<forall>e \<in> set entries. snd e \<noteq> None"
    and "writeEntries M entries True s = (Inr u, s')"
  shows "\<exists>m'. meta_file s' = Some m' \<and> fst ` set (records m') = fst ` set entries"
proof -
  let ?draft = "m\<lparr>version := version m + 1, updated := date_now M\<rparr>"
  from assms(3) have u: "updateMeta M (writeEntries_block M entries True) s = (Inr u, s')"
    by (simp add: writeEntries_def)
  from updateMeta_Inr [OF assms(1) u] obtain cfg' result objs1 recs pushed where
    b: "writeEntries_block M entries True ?draft (objects s) = (Inr (cfg', result), objs1)"
    and c: "checkRecords (version cfg') (records result) = (Inr recs, pushed)"
    and s': "s' = s\<lparr>meta_file := Some (result\<lparr>records := fromEntries
                      (js_sort (\<lambda>a b. stringNaturalCompare (fst a) (fst b)) recs)\<rparr>),
                  objects := retain (obj_holds s) (map (\<lambda>(k, r). hash r) (records m) @ pushed) objs1\<rparr>"
    by blast
  obtain lr lo where l: "writeLoop M entries (records m) [] (objects s) = (lr, lo)"
    by (cases "writeLoop M entries (records m) [] (objects s)")
  from b l obtain recs1 inc1 where lr: "lr = Inr (recs1, inc1)"
    by (cases lr) (auto simp: writeEntries_block_def)
  from b l lr have result: "records result =
      foldl (\<lambda>r rid. if rid \<notin> set inc1 then obj_delete r rid else r) recs1 (map fst (records m))"
    by (auto simp: writeEntries_block_def Let_def)
  from l lr have l': "writeLoop M entries (records m) [] (objects s) = (Inr (recs1, inc1), lo)"
    by simp
  from writeLoop_all_written [OF assms(2) l']
  have k1: "fst ` set recs1 = fst ` set (records m) \<union> fst ` set entries"
    and i1: "set inc1 = fst ` set entries"
    by simp_all
  have "fst ` set (records result) = fst ` set recs1 - {rid \<in> set (map fst (records m)). rid \<notin> set inc1}"
    unfolding result by (rule keys_overwrite_fold)
  also have "\<dots> = fst ` set entries"
    unfolding k1 i1 by auto
  finally have kr: "fst ` set (records result) = fst ` set entries" .
  from checkRecords_Inr [OF c] have "map fst recs = map fst (records result)"
    by simp
  then have "fst ` set recs = fst ` set (records result)"
    by (metis set_map)
  with kr have "fst ` set (fromEntries (js_sort (\<lambda>a b. stringNaturalCompare (fst a) (fst b)) recs))
      = fst ` set entries"
    by (simp add: keys_fromEntries set_js_sort)
  with s' show ?thesis by simp
qed

text \<open>
  Claim C4. On an existing dataset, a successful \<open>writeEntries\<close> with \<open>overwrite = true\<close>
  whose entries all write a value leaves a meta whose record keys are exactly the keys
  written in the call, so a dataset with the records a, b, c in which only a is written
  has the records a. The objects of the removed records are no longer protected by
  \<open>retain\<close>: whatever the next \<open>updateMeta\<close> on the dataset does, the object store
  afterwards holds only objects that are held, belong to a record of the meta the
  overwrite has left, or belong to a record of the result of that next block.
\<close>

theorem overwrite_replaces_records:
  fixes M :: "('d, 'c) model" and s :: "'c dataset"
  assumes "meta_file s = Some m"
    and "\<forall>e \<in> set entries. snd e \<noteq> None"
    and "writeEntries M entries True s = (Inr (), s')"
  shows "\<exists>m'. meta_file s' = Some m'
          \<and> fst ` set (records m') = fst ` set entries
          \<and> (\<forall>(M2 :: ('d, 'c) model) block cfg2 result objs2 r s2.
                block (m'\<lparr>version := version m' + 1, updated := date_now M2\<rparr>) (objects s')
                  = (Inr (cfg2, result), objs2) \<longrightarrow>
                updateMeta M2 block s' = (r, s2) \<longrightarrow>
                set (objects s2) \<subseteq> set (obj_holds s') \<union> (\<lambda>(k, r). hash r) ` set (records m')
                                      \<union> (\<lambda>(k, r). hash r) ` set (records result))
          \<and> (\<forall>(M2 :: ('d, 'c) model) block e objs2 r s2.
                block (m'\<lparr>version := version m' + 1, updated := date_now M2\<rparr>) (objects s')
                  = (Inl e, objs2) \<longrightarrow>
                updateMeta M2 block s' = (r, s2) \<longrightarrow>
                set (objects s2) \<subseteq> set (obj_holds s') \<union> (\<lambda>(k, r). hash r) ` set (records m'))"
proof -
  from writeEntries_overwrite_keys [OF assms] obtain m' where
    m': "meta_file s' = Some m'" and k: "fst ` set (records m') = fst ` set entries"
    by blast
  have g1: "\<forall>(M2 :: ('d, 'c) model) block cfg2 result objs2 r s2.
                block (m'\<lparr>version := version m' + 1, updated := date_now M2\<rparr>) (objects s')
                  = (Inr (cfg2, result), objs2) \<longrightarrow>
                updateMeta M2 block s' = (r, s2) \<longrightarrow>
                set (objects s2) \<subseteq> set (obj_holds s') \<union> (\<lambda>(k, r). hash r) ` set (records m')
                                      \<union> (\<lambda>(k, r). hash r) ` set (records result)"
    using updateMeta_objects_Inr [OF m'] by blast
  have g2: "\<forall>(M2 :: ('d, 'c) model) block e objs2 r s2.
                block (m'\<lparr>version := version m' + 1, updated := date_now M2\<rparr>) (objects s')
                  = (Inl e, objs2) \<longrightarrow>
                updateMeta M2 block s' = (r, s2) \<longrightarrow>
                set (objects s2) \<subseteq> set (obj_holds s') \<union> (\<lambda>(k, r). hash r) ` set (records m')"
    using updateMeta_objects_Inl [OF m'] by blast
  from m' k g1 g2 show ?thesis by blast
qed


theorem overwrite_replaces_records_witness:
  "meta_file example_abc = Some example_abc_meta
   \<and> map fst (records example_abc_meta) = [''a'', ''b'', ''c'']
   \<and> fst (writeEntries example_model [(''a'', Some ''A2'')] True example_abc) = Inr ()
   \<and> (\<exists>m'. meta_file (snd (writeEntries example_model [(''a'', Some ''A2'')] True example_abc))
              = Some m'
          \<and> fst ` set (records m') = {''a''}
          \<and> set (objects (snd (delete example_model (Some ''zz'')
                  (snd (writeEntries example_model [(''a'', Some ''A2'')] True example_abc)))))
              \<subseteq> (\<lambda>(k, r). hash r) ` set (records m'))"
proof -
  let ?W = "writeEntries example_model [(''a'', Some ''A2'')] True example_abc"
  let ?D = "delete example_model (Some ''zz'') (snd ?W)"
  have h1: "meta_file example_abc = Some example_abc_meta"
    by (simp add: example_abc_def)
  have h2: "\<forall>e \<in> set [(''a'', Some ''A2'')]. snd e \<noteq> None"
    by simp
  have w: "fst ?W = Inr ()"
    by code_simp
  then have h3: "?W = (Inr (), snd ?W)"
    by (metis prod.collapse)
  have k: "map fst (records example_abc_meta) = [''a'', ''b'', ''c'']"
    by code_simp
  have holds: "obj_holds (snd ?W) = []"
    by code_simp
  from overwrite_replaces_records [OF h1 h2 h3] obtain m' where
    m': "meta_file (snd ?W) = Some m'" and km: "fst ` set (records m') = fst ` set [(''a'', Some ''A2'')]"
    and gc: "\<forall>(M2 :: (string, unit) model) block cfg2 result objs2 r s2.
                block (m'\<lparr>version := version m' + 1, updated := date_now M2\<rparr>) (objects (snd ?W))
                  = (Inr (cfg2, result), objs2) \<longrightarrow>
                updateMeta M2 block (snd ?W) = (r, s2) \<longrightarrow>
                set (objects s2) \<subseteq> set (obj_holds (snd ?W)) \<union> (\<lambda>(k, r). hash r) ` set (records m')
                                      \<union> (\<lambda>(k, r). hash r) ` set (records result)"
    by blast
  let ?draft = "m'\<lparr>version := version m' + 1, updated := date_now example_model\<rparr>"
  have b: "delete_block ''zz'' ?draft (objects (snd ?W))
             = (Inr (?draft\<lparr>records := obj_delete (records m') ''zz''\<rparr>,
                     ?draft\<lparr>records := obj_delete (records m') ''zz''\<rparr>), objects (snd ?W))"
    by (simp add: delete_block_def Let_def)
  have d: "updateMeta example_model (delete_block ''zz'') (snd ?W) = (fst ?D, snd ?D)"
    by (simp add: delete_def)
  have sub: "(\<lambda>(k, r). hash r) ` set (obj_delete (records m') ''zz'') \<subseteq> (\<lambda>(k, r). hash r) ` set (records m')"
    by (auto simp: obj_delete_def)
  from gc b d have "set (objects (snd ?D)) \<subseteq> set (obj_holds (snd ?W))
      \<union> (\<lambda>(k, r). hash r) ` set (records m')
      \<union> (\<lambda>(k, r). hash r) ` set (records (?draft\<lparr>records := obj_delete (records m') ''zz''\<rparr>))"
    by blast
  with holds sub have "set (objects (snd ?D)) \<subseteq> (\<lambda>(k, r). hash r) ` set (records m')"
    by simp blast
  with m' km h1 k w show ?thesis
    by auto
qed

text \<open>
  Claim C9. \<open>updateMeta\<close> sorts the entries of \<open>result.records\<close> by the natural
  comparison of their keys and rebuilds the object with \<open>Object.fromEntries\<close>; an object
  enumerates its integer-like keys first, so the order of the sort is lost where such a
  key sorts after another key. Writing the records \<open>9a\<close> and \<open>10\<close> to a new dataset
  succeeds, and the stored records enumerate as \<open>10\<close>, \<open>9a\<close>, although \<open>9a\<close> comes before
  \<open>10\<close> in the natural order.
\<close>

theorem records_order_integer_keys:
  "(let s1 = snd (create example_model () no_dataset);
        (r, s2) = writeEntries example_model [(''9a'', Some ''one''), (''10'', Some ''two'')] False s1
    in r = Inr ()
     \<and> map_option (\<lambda>m. map fst (records m)) (meta_file s2) = Some [''10'', ''9a'']
     \<and> stringNaturalCompare ''9a'' ''10'' < 0)"
  by code_simp

subsection \<open>Validation of attachments\<close>

text \<open>
  What \<open>validate\<close> does: with a meta, the linkers become the pruned list and the result
  is whether that list is non-empty; blob and meta are deleted exactly when the pruned
  list is empty and the hash has no entry in the hold table. Without a meta the result
  is false and the blob is deleted unless the hash is held.
\<close>

lemma validate_present:
  assumes "metaStore s h = Some m"
  shows "validate rp h s =
     (let pruned = pruneLinkers (''hash://sha256/'' @ toLowerCase h) (rp (linkers m))
      in (pruned \<noteq> [],
          if pruned = [] \<and> holding s h = None
          then s\<lparr>metaStore := (metaStore s)(h := None), blobStore := blobStore s - {h}\<rparr>
          else s\<lparr>metaStore := (metaStore s)(h \<mapsto> m\<lparr>linkers := pruned\<rparr>)\<rparr>))"
  using assms
  by (auto simp: validate_def fs_update_def validate_callback_def Let_def domIff)

lemma validate_absent:
  assumes "metaStore s h = None"
  shows "validate rp h s =
     (False, if holding s h = None then s\<lparr>blobStore := blobStore s - {h}\<rparr> else s)"
  using assms
  by (auto simp: validate_def fs_update_def validate_callback_def Let_def domIff fun_upd_idem)

text \<open>
  Claim C3. The result of \<open>validate\<close> is \<open>retain\<close>, which is set only by a non-empty
  pruned list; the hold table is consulted for the deletion alone. For an attachment
  that is held and whose linker no longer links to it, \<open>validate\<close> returns false, yet
  blob and meta stay in the store (with the linkers pruned to the empty list).
\<close>

theorem validate_held_returns_false:
  "fst (validate no_links example_hash example_attachments) = False
   \<and> has (snd (validate no_links example_hash example_attachments)) example_hash
   \<and> map_option linkers (metaStore (snd (validate no_links example_hash example_attachments))
        example_hash) = Some []"
  by code_simp

subsection \<open>The codec registry and the decoding of request bodies\<close>

lemma codec_for_with_parameters:
  assumes "obj_read (mediaTypeHandlers exports)
             (takeWhile (\<lambda>c. c \<noteq> CHR '';'') (toLowerCase query)) = Found c"
    and "obj_read (mediaTypeHandlers exports) (toLowerCase query) = Undefined"
  shows "codec_for exports query = Undefined"
  using assms by (simp add: codec_for_def Let_def isUndefined_def)

lemma codec_for_no_match:
  assumes "isUndefined (obj_read (mediaTypeHandlers exports)
             (takeWhile (\<lambda>c. c \<noteq> CHR '';'') (toLowerCase query)))"
    and "\<forall>(ext, c) \<in> set (extensionHandlers exports).
           toLowerCase query \<noteq> ext \<and> \<not> suffix (''.'' @ ext) (toLowerCase query)"
  shows "codec_for exports query = Undefined"
proof -
  have "find (\<lambda>(ext, c). toLowerCase query = ext \<or> suffix (''.'' @ ext) (toLowerCase query))
          (extensionHandlers exports) = None"
    using assms(2) by (auto simp: find_None_iff)
  then show ?thesis
    using assms(1) by (simp add: codec_for_def Let_def)
qed

text \<open>
  Claim C6. \<open>for\<close> tests the table of media types at the query cut at the first \<open>;\<close>
  but returns the entry at the whole query: a media type of a registered codec is found
  when it is given bare, and the result is undefined as soon as parameters follow it
  (lemma \<open>codec_for_with_parameters\<close> for any registry). With nothing matching, the
  result is undefined (lemma \<open>codec_for_no_match\<close>).
\<close>

theorem codec_for_drops_parameters:
  "codec_for example_exports ''application/json'' = Found json_codec
   \<and> codec_for example_exports ''application/json; charset=utf-8'' = Undefined
   \<and> codec_for example_exports ''text/xml'' = Found xml_codec
   \<and> codec_for example_exports ''text/xml;charset=utf-8'' = Undefined
   \<and> codec_for example_exports ''notes.JSON'' = Found json_codec"
  by code_simp

text \<open>
  Claim C7, as amended. In the current \<open>server.js\<close> a body whose decoder throws an error
  without a status code and without the code \<open>ENOENT\<close>, named \<open>SyntaxError\<close> or thrown
  inside borc's decoder, is answered with status 400, whichever codec decodes it. In
  the earlier \<open>server.js\<close> a JSON or CBOR body that fails to decode is answered with
  status 415.
\<close>

theorem decode_failure_status:
  "(req_is req = Some reqType \<longrightarrow> codec_for exports reqType = Found c \<longrightarrow>
      dec c (body req) = Inl err \<longrightarrow>
      (e_statusCode err = None \<or> e_statusCode err = Some 0) \<longrightarrow> e_code err \<noteq> Some ''ENOENT'' \<longrightarrow>
      (e_name err = ''SyntaxError'' \<or> js_includes (e_stack err) ''/borc/src/decoder.js'') \<longrightarrow>
      bodyMiddleware exports dec req = Respond 400)
   \<and> (is_json req \<longrightarrow> json_decode (body req) = Inl err \<longrightarrow>
      bodyMiddleware0 json_decode cbor_decode req = Respond 415)
   \<and> (\<not> is_json req \<longrightarrow> is_cbor req \<longrightarrow> cbor_decode (body req) = Inl err \<longrightarrow>
      bodyMiddleware0 json_decode cbor_decode req = Respond 415)"
  by (auto simp: bodyMiddleware_def bodyMiddleware0_def errorStatus_def)

theorem decode_failure_status_witness:
  "failing_decode json_codec (body json_request) = Inl json_syntax_error
   \<and> failing_decode cbor_codec (body cbor_request) = Inl cbor_decode_error
   \<and> bodyMiddleware example_exports failing_decode json_request = Respond 400
   \<and> bodyMiddleware example_exports failing_decode cbor_request = Respond 400
   \<and> bodyMiddleware0 (failing_decode json_codec) (failing_decode cbor_codec) json_request
        = Respond 415
   \<and> bodyMiddleware0 (failing_decode json_codec) (failing_decode cbor_codec) cbor_request
        = Respond 415"
proof -
  have j: "req_is json_request = Some ''application/json''"
      "codec_for example_exports ''application/json'' = Found json_codec"
      "failing_decode json_codec (body json_request) = Inl json_syntax_error"
      "e_statusCode json_syntax_error = None \<or> e_statusCode json_syntax_error = Some 0"
      "e_code json_syntax_error \<noteq> Some ''ENOENT''"
      "e_name json_syntax_error = ''SyntaxError''
         \<or> js_includes (e_stack json_syntax_error) ''/borc/src/decoder.js''"
      "is_json json_request"
    by code_simp+
  have c: "req_is cbor_request = Some ''application/cbor''"
      "codec_for example_exports ''application/cbor'' = Found cbor_codec"
      "failing_decode cbor_codec (body cbor_request) = Inl cbor_decode_error"
      "e_statusCode cbor_decode_error = None \<or> e_statusCode cbor_decode_error = Some 0"
      "e_code cbor_decode_error \<noteq> Some ''ENOENT''"
      "e_name cbor_decode_error = ''SyntaxError''
         \<or> js_includes (e_stack cbor_decode_error) ''/borc/src/decoder.js''"
      "\<not> is_json cbor_request" "is_cbor cbor_request"
    by code_simp+
  have j400: "bodyMiddleware example_exports failing_decode json_request = Respond 400"
    using decode_failure_status [where req = json_request and reqType = "''application/json''"
        and exports = example_exports and c = json_codec and dec = failing_decode
        and err = json_syntax_error] j
    by blast
  have c400: "bodyMiddleware example_exports failing_decode cbor_request = Respond 400"
    using decode_failure_status [where req = cbor_request and reqType = "''application/cbor''"
        and exports = example_exports and c = cbor_codec and dec = failing_decode
        and err = cbor_decode_error] c
    by blast
  have j415: "bodyMiddleware0 (failing_decode json_codec) (failing_decode cbor_codec) json_request
        = Respond (415 :: nat)"
    using decode_failure_status [where req = json_request
        and json_decode = "failing_decode json_codec" and cbor_decode = "failing_decode cbor_codec"
        and err = json_syntax_error] j
    by blast
  have c415: "bodyMiddleware0 (failing_decode json_codec) (failing_decode cbor_codec) cbor_request
        = Respond (415 :: nat)"
    using decode_failure_status [where req = cbor_request
        and json_decode = "failing_decode json_codec" and cbor_decode = "failing_decode cbor_codec"
        and err = cbor_decode_error] c
    by blast
  show ?thesis
    using j(3) c(3) j400 c400 j415 c415 by blast
qed

text \<open>
  The claim as stated fails on the earlier \<open>server.js\<close>: a JSON body that does not parse
  is answered with 415, not 400.
\<close>

theorem decode_failure_status_counterexample:
  "failing_decode json_codec (body json_request) = Inl json_syntax_error
   \<and> bodyMiddleware0 (failing_decode json_codec) (failing_decode cbor_codec) json_request
        = Respond 415"
  by code_simp

subsection \<open>The XML codec\<close>









declare jsonMLToArbitraryObject_body.simps [simp del]





lemma obj_set_empty: "\<not> isArrayIndex k \<Longrightarrow> obj_set [] k v = [(k, v)]"
  by (simp add: obj_set_def)





text \<open>
  Why the arrays of a \<open>roundTripValue\<close> hold atoms and empty containers only: inside an
  array the element of a nested array carries no attributes, and read back as it was
  built its first child is taken for them. The array \<open>[[null, true]]\<close> comes back as
  \<open>[[true]]\<close>, and \<open>[{k: 'v'}]\<close> as \<open>[{}]\<close>.
\<close>

lemma nested_array_document:
  "(case encode_document example_host (JArr [JArr [JNull, JBool True]]) of
      Inl e \<Rightarrow> Inl e | Inr doc \<Rightarrow> decode_parsed example_host doc)
     = Inr (JArr [JArr [JBool True]])
   \<and> (case encode_document example_host (JArr [JObj [(''k'', JStr ''v'')]]) of
         Inl e \<Rightarrow> Inl e | Inr doc \<Rightarrow> decode_parsed example_host doc)
        = Inr (JArr [JObj []])"
  by code_simp

end
